theory Spec2Isabelle
  imports Main "HOL-Library.Word" "HOL-Library.AList"
begin

unbundle bit_operations_syntax

section \<open>The export object of giraffez (src/exportobject.cc)\<close>

text \<open>
  \<open>exportobject.cc\<close> is the Python extension type \<open>_tpt.Export\<close>: a thin object
  holding a pointer to a \<open>Giraffez::Connection\<close>, whose methods parse their Python
  arguments and hand them to the connection or to its encoder. The connection class, the
  encoder and the constants of \<open>common.h\<close>, \<open>connection.h\<close> and the vendor headers are
  not part of this file. The embedding therefore takes
  \<^item> the three category masks and the other named constants as record parameters,
  \<^item> the collaborator functions the methods call as function parameters,
  and, separately, gives definitions of those collaborators that follow the written
  specification; each of those is marked as such.
\<close>

subsection \<open>Python values, exceptions and argument parsing\<close>

record column =
  col_name :: string
  col_type :: int
  nullable :: bool
  byte_size :: nat

text \<open>The Python objects that cross the boundary. A \<open>PyStr\<close> holds the UTF-8 bytes.\<close>

datatype pyobj =
    PyNone
  | PyInt int
  | PyStr string
  | PyBytes "8 word list"
  | PyColumns "column list"

text \<open>
  A method returns a \<open>PyObject*\<close> or \<open>NULL\<close> with an exception set. \<open>ArgumentError\<close>
  stands for whatever \<open>PyArg_ParseTuple\<close> raises (TypeError, OverflowError, ValueError);
  \<open>BadEncoding v\<close> is the \<open>ValueError\<close> of \<open>Export_set_encoding\<close>, whose message
  \<open>"Encoder set_encoding failed, bad encoding '0x%06x'."\<close> is formatted with \<open>v\<close>.
  The remaining constructors are the error kinds of the specification, raised inside
  the collaborators.
\<close>

datatype pyexc =
    ArgumentError
  | BadEncoding "32 word"
  | ConfigurationError
  | EncodingError
  | LifecycleError
  | ConnectionError
  | ProtocolError

text \<open>The C values \<open>PyArg_ParseTuple\<close> stores through its output pointers.\<close>

datatype cval = CStr string | CInt int | CObj pyobj

text \<open>
  One format unit of CPython's \<open>PyArg_ParseTuple\<close>: \<open>s\<close> takes a string without an
  embedded NUL and yields a C string, \<open>i\<close> takes an integer that fits a C \<open>int\<close>,
  \<open>O\<close> takes any object unchanged.
\<close>

fun convert :: "char \<Rightarrow> pyobj \<Rightarrow> cval option" where
  "convert u v =
     (if u = CHR ''s'' then
        (case v of
           PyStr s \<Rightarrow> if CHR 0x00 \<in> set s then None else Some (CStr s)
         | _ \<Rightarrow> None)
      else if u = CHR ''i'' then
        (case v of
           PyInt n \<Rightarrow> if - (2 ^ 31) \<le> n \<and> n < 2 ^ 31 then Some (CInt n) else None
         | _ \<Rightarrow> None)
      else if u = CHR ''O'' then Some (CObj v)
      else None)"

text \<open>
  The argument tuple against a format string: as many arguments as format units, each
  converted by its unit; \<open>None\<close> is the return value 0 (an exception is set).
\<close>

fun PyArg_ParseTuple :: "pyobj list \<Rightarrow> string \<Rightarrow> cval list option" where
  "PyArg_ParseTuple [] [] = Some []"
| "PyArg_ParseTuple (v # vs) (u # us) =
     (case convert u v of
        None \<Rightarrow> None
      | Some c \<Rightarrow>
          (case PyArg_ParseTuple vs us of
             None \<Rightarrow> None
           | Some cs \<Rightarrow> Some (c # cs)))"
| "PyArg_ParseTuple _ _ = None"

subsection \<open>The connection and its encoder\<close>

text \<open>
  The source reads \<open>self->conn->encoder->Settings\<close>: an encoder with a 32-bit
  \<open>Settings\<close> field. The null marker and the delimiter are the two overrides the
  specification lists beside it.
\<close>

record Encoder =
  Settings :: "32 word"
  null_marker :: "pyobj option"
  delimiter :: "pyobj option"

datatype lifecycle = Created | Configured | Active | Terminated

text \<open>The attribute keys \<open>Export_init\<close> names (an enumeration of the vendor header).\<close>

datatype TD_Attribute =
    TD_SYSTEM_OPERATOR
  | TD_TDP_ID
  | TD_USER_NAME
  | TD_USER_PASSWORD
  | TD_MIN_SESSIONS
  | TD_MAX_SESSIONS
  | TD_MAX_DECIMAL_DIGITS
  | TD_CHARSET
  | TD_BUFFER_MODE
  | TD_BLOCK_SIZE
  | TD_BUFFER_HEADER_SIZE
  | TD_BUFFER_LENGTH_SIZE
  | TD_BUFFER_MAX_SIZE
  | TD_BUFFER_TRAILER_SIZE
  | TD_SPOOLMODE
  | TD_TENACITY_HOURS
  | TD_TENACITY_SLEEP

text \<open>The typed overloads of \<open>AddAttribute\<close> take an \<open>int\<close> or a \<open>char*\<close>.\<close>

datatype attr_value = IntVal int | StrVal string

text \<open>
  The session of the specification (section 3): credentials, the ordered attribute
  mapping, the lifecycle state, the query, the encoder, the column metadata reported
  at stream-open time, and the native handle (\<open>handle\<close>: one is allocated;
  \<open>releases\<close>: how often one has been released).
\<close>

record Connection =
  host :: string
  username :: string
  password :: string
  attributes :: "(TD_Attribute \<times> attr_value) list"
  state :: lifecycle
  query :: "string option"
  encoder :: Encoder
  columns :: "column list"
  handle :: bool
  releases :: nat

text \<open>\<open>typedef struct { PyObject_HEAD; Giraffez::Connection *conn; } Export\<close>\<close>

record Export =
  conn :: "Connection option"

text \<open>Constants the source names and other files define.\<close>

record masks =
  ROW_RETURN_MASK :: "32 word"
  DATETIME_RETURN_MASK :: "32 word"
  DECIMAL_RETURN_MASK :: "32 word"

record constants =
  TD_EXPORT :: int
  TERADATA_CHARSET :: string
  TD_ROW_MAX_SIZE :: int
  default_settings :: "32 word"

text \<open>The specification calls the three categories disjoint bit ranges.\<close>

definition disjoint_categories :: "masks \<Rightarrow> bool" where
  "disjoint_categories M =
     (ROW_RETURN_MASK M AND DATETIME_RETURN_MASK M = 0 \<and>
      ROW_RETURN_MASK M AND DECIMAL_RETURN_MASK M = 0 \<and>
      DATETIME_RETURN_MASK M AND DECIMAL_RETURN_MASK M = 0)"

definition categories :: "masks \<Rightarrow> 32 word list" where
  "categories M = [ROW_RETURN_MASK M, DATETIME_RETURN_MASK M, DECIMAL_RETURN_MASK M]"

subsection \<open>Collaborators, modelled from the specification\<close>

text \<open>
  Modelled from the spec: the constructor \<open>Giraffez::Connection(host, username,
  password)\<close> of \<open>connection.h\<close>, which is not among the sources. Section 3: a session
  is created with the three credentials in state \<open>Created\<close>, with no query and no
  overrides, owning the native handle; the attribute defaults are added by
  \<open>Export_init\<close>.
\<close>

definition Connection_new :: "constants \<Rightarrow> string \<Rightarrow> string \<Rightarrow> string \<Rightarrow> Connection" where
  "Connection_new K h u p =
     \<lparr>host = h, username = u, password = p, attributes = [], state = Created,
      query = None,
      encoder = \<lparr>Settings = default_settings K, null_marker = None, delimiter = None\<rparr>,
      columns = [], handle = True, releases = 0\<rparr>"

text \<open>
  Modelled from the spec: the typed overloads \<open>Connection::AddAttribute(key, int)\<close> and
  \<open>Connection::AddAttribute(key, char*)\<close> of \<open>connection.h\<close>, which is not among the
  sources. Section 4.1: no side effect beyond updating the in-memory ordered mapping.
\<close>

definition AddAttribute :: "TD_Attribute \<Rightarrow> attr_value \<Rightarrow> Connection \<Rightarrow> Connection" where
  "AddAttribute key val c = c\<lparr>attributes := AList.update key val (attributes c)\<rparr>"

text \<open>
  Modelled from the spec: \<open>Connection::SetQuery\<close> of \<open>connection.h\<close>, which is not among
  the sources. Section 4.2: valid in Created and Configured, a \<open>LifecycleError\<close> in
  Active and Terminated.
\<close>

definition Connection_SetQuery :: "string \<Rightarrow> Connection \<Rightarrow> (pyexc + pyobj) \<times> Connection" where
  "Connection_SetQuery text c =
     (if state c = Created \<or> state c = Configured
      then (Inr PyNone, c\<lparr>query := Some text\<rparr>)
      else (Inl LifecycleError, c))"

text \<open>
  Modelled from the spec: \<open>Connection::Terminate\<close> of \<open>connection.h\<close>, which is not among
  the sources. Section 4.2: valid in any state; releases the native handle if one was
  allocated, transitions to Terminated; calling again is a no-op returning success.
\<close>

definition Connection_Terminate :: "Connection \<Rightarrow> (pyexc + pyobj) \<times> Connection" where
  "Connection_Terminate c =
     (Inr PyNone,
      c\<lparr>state := Terminated, handle := False,
        releases := (if handle c then releases c + 1 else releases c)\<rparr>)"

text \<open>
  Modelled from the spec: \<open>Connection::Initiate\<close> of \<open>connection.h\<close>, which is not among
  the sources. Section 4.2: valid in Created and Configured; on success the state
  becomes Active, on failure it is unchanged and the error is a \<open>ConnectionError\<close>.
  The parameter \<open>transport\<close> is the vendor library's handshake as a whole, retries
  included: the column metadata of the opened stream, in the query's projected order,
  or \<open>None\<close> when the tenacity bounds are exhausted.
\<close>

definition Connection_Initiate ::
  "(Connection \<Rightarrow> column list option) \<Rightarrow> Connection \<Rightarrow> (pyexc + pyobj) \<times> Connection" where
  "Connection_Initiate transport c =
     (if state c = Created \<or> state c = Configured then
        (case transport c of
           Some cols \<Rightarrow> (Inr PyNone, c\<lparr>state := Active, columns := cols\<rparr>)
         | None \<Rightarrow> (Inl ConnectionError, c))
      else (Inl LifecycleError, c))"

text \<open>
  Modelled from the spec: \<open>Connection::Columns\<close> of \<open>connection.h\<close>, which is not among
  the sources. Section 4.4: valid only when the state is Active, then the descriptors
  as reported at stream-open time; before that a \<open>LifecycleError\<close>.
\<close>

definition Connection_Columns :: "Connection \<Rightarrow> (pyexc + pyobj) \<times> Connection" where
  "Connection_Columns c =
     (if state c = Active then (Inr (PyColumns (columns c)), c)
      else (Inl LifecycleError, c))"

text \<open>
  Modelled from the spec: \<open>encoder_set_encoding\<close> of the encoder, which is not among the
  sources. Section 4.3: the merged result must pass a validity check (the parameter
  \<open>supported\<close>: the combination of category values is a supported encoding); if not,
  the stored settings are left unchanged. The return value is 0 on success, as the
  caller's test \<open>!= 0\<close> reads it.
\<close>

definition encoder_set_encoding :: "(32 word \<Rightarrow> bool) \<Rightarrow> Encoder \<Rightarrow> 32 word \<Rightarrow> int \<times> Encoder" where
  "encoder_set_encoding supported e s =
     (if supported s then (0, e\<lparr>Settings := s\<rparr>) else (- 1, e))"

text \<open>
  Modelled from the spec: \<open>encoder_set_null\<close> of the encoder, which is not among the
  sources. Section 4.6: validate the value's kind against what the encoder expects
  (the parameter \<open>kind_ok\<close>); an \<open>EncodingError\<close> on mismatch.
\<close>

definition encoder_set_null :: "(pyobj \<Rightarrow> bool) \<Rightarrow> Encoder \<Rightarrow> pyobj \<Rightarrow> (pyexc + pyobj) \<times> Encoder" where
  "encoder_set_null kind_ok e v =
     (if kind_ok v then (Inr PyNone, e\<lparr>null_marker := Some v\<rparr>) else (Inl EncodingError, e))"

text \<open>
  Modelled from the spec: \<open>encoder_set_delimiter\<close> of the encoder, which is not among
  the sources. Section 4.6, as for the null marker.
\<close>

definition encoder_set_delimiter :: "(pyobj \<Rightarrow> bool) \<Rightarrow> Encoder \<Rightarrow> pyobj \<Rightarrow> (pyexc + pyobj) \<times> Encoder" where
  "encoder_set_delimiter kind_ok e v =
     (if kind_ok v then (Inr PyNone, e\<lparr>delimiter := Some v\<rparr>) else (Inl EncodingError, e))"

subsection \<open>The methods of the export object\<close>

text \<open>\<open>Export_new\<close>: \<open>tp_alloc\<close> returns zeroed memory, so \<open>conn\<close> is the null pointer.\<close>

definition Export_new :: Export where
  "Export_new = \<lparr>conn = None\<rparr>"

text \<open>
  \<open>Export_init\<close>: parse three strings, construct the connection, add the attributes
  one call after the other, return 0; return -1 when the arguments do not parse.
\<close>

definition Export_init :: "constants \<Rightarrow> Export \<Rightarrow> pyobj list \<Rightarrow> int \<times> Export" where
  "Export_init K self args =
     (case PyArg_ParseTuple args ''sss'' of
        Some [CStr h, CStr u, CStr p] \<Rightarrow>
          (let c = Connection_new K h u p;
               c = AddAttribute TD_SYSTEM_OPERATOR (IntVal (TD_EXPORT K)) c;
               c = AddAttribute TD_TDP_ID (StrVal h) c;
               c = AddAttribute TD_USER_NAME (StrVal u) c;
               c = AddAttribute TD_USER_PASSWORD (StrVal p) c;
               c = AddAttribute TD_MIN_SESSIONS (IntVal 2) c;
               c = AddAttribute TD_MAX_SESSIONS (IntVal 5) c;
               c = AddAttribute TD_MAX_DECIMAL_DIGITS (IntVal 38) c;
               c = AddAttribute TD_CHARSET (StrVal (TERADATA_CHARSET K)) c;
               c = AddAttribute TD_BUFFER_MODE (StrVal ''YES'') c;
               c = AddAttribute TD_BLOCK_SIZE (IntVal 64330) c;
               c = AddAttribute TD_BUFFER_HEADER_SIZE (IntVal 2) c;
               c = AddAttribute TD_BUFFER_LENGTH_SIZE (IntVal 2) c;
               c = AddAttribute TD_BUFFER_MAX_SIZE (IntVal (TD_ROW_MAX_SIZE K)) c;
               c = AddAttribute TD_BUFFER_TRAILER_SIZE (IntVal 0) c;
               c = AddAttribute TD_SPOOLMODE (StrVal ''NoSpool'') c;
               c = AddAttribute TD_TENACITY_HOURS (IntVal 1) c;
               c = AddAttribute TD_TENACITY_SLEEP (IntVal 1) c
           in (0, self\<lparr>conn := Some c\<rparr>))
      | _ \<Rightarrow> (- 1, self))"

text \<open>
  The methods below act on the connection \<open>self->conn\<close> points to. Each takes the
  collaborator it calls as its first argument and returns the Python result together
  with the connection as the call leaves it.

  \<open>Export_add_attribute\<close>: \<open>add_attr\<close> is \<open>Connection::AddAttribute(TD_Attribute,
  PyObject*)\<close>.
\<close>

definition Export_add_attribute ::
  "(int \<Rightarrow> pyobj \<Rightarrow> Connection \<Rightarrow> (pyexc + pyobj) \<times> Connection) \<Rightarrow>
   Connection \<Rightarrow> pyobj list \<Rightarrow> (pyexc + pyobj) \<times> Connection" where
  "Export_add_attribute add_attr c args =
     (case PyArg_ParseTuple args ''iO'' of
        Some [CInt key, CObj val] \<Rightarrow> add_attr key val c
      | _ \<Rightarrow> (Inl ArgumentError, c))"

definition Export_close ::
  "(Connection \<Rightarrow> (pyexc + pyobj) \<times> Connection) \<Rightarrow> Connection \<Rightarrow> (pyexc + pyobj) \<times> Connection" where
  "Export_close terminate c = terminate c"

definition Export_columns ::
  "(Connection \<Rightarrow> (pyexc + pyobj) \<times> Connection) \<Rightarrow> Connection \<Rightarrow> (pyexc + pyobj) \<times> Connection" where
  "Export_columns get_columns c = get_columns c"

definition Export_get_buffer ::
  "(Connection \<Rightarrow> (pyexc + pyobj) \<times> Connection) \<Rightarrow> Connection \<Rightarrow> (pyexc + pyobj) \<times> Connection" where
  "Export_get_buffer get_buffer c = get_buffer c"

text \<open>
  The value \<open>Export_set_encoding\<close> computes in its local \<open>new_settings\<close> from the stored
  \<open>Settings\<close> (\<open>cur\<close>) and the parsed argument \<open>settings\<close>: three independent tests, each
  assigning from the stored settings.
\<close>

definition new_settings :: "masks \<Rightarrow> 32 word \<Rightarrow> 32 word \<Rightarrow> 32 word" where
  "new_settings M cur settings =
     (let n = 0;
          n = (if settings AND ROW_RETURN_MASK M \<noteq> 0
               then (cur AND NOT (ROW_RETURN_MASK M)) OR settings else n);
          n = (if settings AND DATETIME_RETURN_MASK M \<noteq> 0
               then (cur AND NOT (DATETIME_RETURN_MASK M)) OR settings else n);
          n = (if settings AND DECIMAL_RETURN_MASK M \<noteq> 0
               then (cur AND NOT (DECIMAL_RETURN_MASK M)) OR settings else n)
      in n)"

text \<open>
  \<open>Export_set_encoding\<close>: the \<open>i\<close> unit stores a C \<open>int\<close> into the \<open>uint32_t settings\<close>;
  \<open>set_enc\<close> is \<open>encoder_set_encoding\<close>, which works on the encoder in place and
  returns a status; a status other than 0 raises the \<open>ValueError\<close> formatted with
  \<open>settings\<close>.
\<close>

definition Export_set_encoding ::
  "masks \<Rightarrow> (Encoder \<Rightarrow> 32 word \<Rightarrow> int \<times> Encoder) \<Rightarrow>
   Connection \<Rightarrow> pyobj list \<Rightarrow> (pyexc + pyobj) \<times> Connection" where
  "Export_set_encoding M set_enc c args =
     (case PyArg_ParseTuple args ''i'' of
        Some [CInt i] \<Rightarrow>
          (let settings = word_of_int i;
               (rc, e) = set_enc (encoder c) (new_settings M (Settings (encoder c)) settings)
           in if rc \<noteq> 0 then (Inl (BadEncoding settings), c\<lparr>encoder := e\<rparr>)
              else (Inr PyNone, c\<lparr>encoder := e\<rparr>))
      | _ \<Rightarrow> (Inl ArgumentError, c))"

text \<open>
  \<open>Export_set_null\<close> and \<open>Export_set_delimiter\<close>: \<open>Py_RETURN_ERROR\<close> (a macro of
  \<open>common.h\<close>) returns \<open>NULL\<close> when its argument is \<open>NULL\<close>, keeping the exception the
  encoder set; otherwise the method returns \<open>None\<close>.
\<close>

definition Export_set_null ::
  "(Encoder \<Rightarrow> pyobj \<Rightarrow> (pyexc + pyobj) \<times> Encoder) \<Rightarrow>
   Connection \<Rightarrow> pyobj list \<Rightarrow> (pyexc + pyobj) \<times> Connection" where
  "Export_set_null set_null c args =
     (case PyArg_ParseTuple args ''O'' of
        Some [CObj null] \<Rightarrow>
          (case set_null (encoder c) null of
             (Inl exc, e) \<Rightarrow> (Inl exc, c\<lparr>encoder := e\<rparr>)
           | (Inr r, e) \<Rightarrow> (Inr PyNone, c\<lparr>encoder := e\<rparr>))
      | _ \<Rightarrow> (Inl ArgumentError, c))"

definition Export_set_delimiter ::
  "(Encoder \<Rightarrow> pyobj \<Rightarrow> (pyexc + pyobj) \<times> Encoder) \<Rightarrow>
   Connection \<Rightarrow> pyobj list \<Rightarrow> (pyexc + pyobj) \<times> Connection" where
  "Export_set_delimiter set_delim c args =
     (case PyArg_ParseTuple args ''O'' of
        Some [CObj delim] \<Rightarrow>
          (case set_delim (encoder c) delim of
             (Inl exc, e) \<Rightarrow> (Inl exc, c\<lparr>encoder := e\<rparr>)
           | (Inr r, e) \<Rightarrow> (Inr PyNone, c\<lparr>encoder := e\<rparr>))
      | _ \<Rightarrow> (Inl ArgumentError, c))"

definition Export_initiate ::
  "(Connection \<Rightarrow> (pyexc + pyobj) \<times> Connection) \<Rightarrow> Connection \<Rightarrow> (pyexc + pyobj) \<times> Connection" where
  "Export_initiate initiate c =
     (case initiate c of
        (Inl exc, c') \<Rightarrow> (Inl exc, c')
      | (Inr r, c') \<Rightarrow> (Inr PyNone, c'))"

definition Export_set_query ::
  "(string \<Rightarrow> Connection \<Rightarrow> (pyexc + pyobj) \<times> Connection) \<Rightarrow>
   Connection \<Rightarrow> pyobj list \<Rightarrow> (pyexc + pyobj) \<times> Connection" where
  "Export_set_query set_query c args =
     (case PyArg_ParseTuple args ''s'' of
        Some [CStr q] \<Rightarrow> set_query q c
      | _ \<Rightarrow> (Inl ArgumentError, c))"

subsection \<open>Example values\<close>

text \<open>
  Concrete values for evaluating the definitions: a partition into three byte-wide
  ranges, constants, a validity check that wants exactly one bit in every category,
  a kind check that takes strings and \<open>None\<close>, and a freshly constructed connection
  whose settings are 0x010104.
\<close>

definition byte_masks :: masks where
  "byte_masks =
     \<lparr>ROW_RETURN_MASK = 0xFF, DATETIME_RETURN_MASK = 0xFF00, DECIMAL_RETURN_MASK = 0xFF0000\<rparr>"

definition example_constants :: constants where
  "example_constants =
     \<lparr>TD_EXPORT = 2, TERADATA_CHARSET = ''UTF8'', TD_ROW_MAX_SIZE = 64256,
      default_settings = 0x010104\<rparr>"

definition single_bit :: "32 word \<Rightarrow> bool" where
  "single_bit x = (x \<noteq> 0 \<and> x AND (x - 1) = 0)"

definition one_bit_each :: "32 word \<Rightarrow> bool" where
  "one_bit_each s =
     (single_bit (s AND 0xFF) \<and> single_bit (s AND 0xFF00) \<and> single_bit (s AND 0xFF0000))"

definition any_combination :: "32 word \<Rightarrow> bool" where
  "any_combination s = True"

fun text_or_none :: "pyobj \<Rightarrow> bool" where
  "text_or_none PyNone = True"
| "text_or_none (PyStr s) = True"
| "text_or_none _ = False"

definition example_conn :: Connection where
  "example_conn = Connection_new example_constants ''h'' ''u'' ''p''"

definition example_columns :: "column list" where
  "example_columns =
     [\<lparr>col_name = ''id'', col_type = 496, nullable = False, byte_size = 4\<rparr>,
      \<lparr>col_name = ''name'', col_type = 449, nullable = True, byte_size = 20\<rparr>]"

section \<open>Properties\<close>

subsection \<open>Argument parsing\<close>

lemma parse_i_sint:
  "PyArg_ParseTuple [PyInt (sint (m :: 32 word))] ''i'' = Some [CInt (sint m)]"
  using sint_ge [of m] sint_lt [of m] by simp

subsection \<open>The value handed to the encoder\<close>

lemma new_settings_cases:
  "new_settings M cur s =
     (if s AND DECIMAL_RETURN_MASK M \<noteq> 0 then (cur AND NOT (DECIMAL_RETURN_MASK M)) OR s
      else if s AND DATETIME_RETURN_MASK M \<noteq> 0 then (cur AND NOT (DATETIME_RETURN_MASK M)) OR s
      else if s AND ROW_RETURN_MASK M \<noteq> 0 then (cur AND NOT (ROW_RETURN_MASK M)) OR s
      else 0)"
  by (simp add: new_settings_def Let_def)

lemma Export_set_encoding_submits:
  "Export_set_encoding M set_enc c [PyInt (sint s)] =
     (case set_enc (encoder c) (new_settings M (Settings (encoder c)) s) of
        (rc, e) \<Rightarrow>
          (if rc \<noteq> 0 then Inl (BadEncoding s) else Inr PyNone, c\<lparr>encoder := e\<rparr>))"
  unfolding Export_set_encoding_def parse_i_sint
  by (simp add: Let_def split: prod.split)

lemma Export_set_encoding_modelled:
  "Export_set_encoding M (encoder_set_encoding supported) c [PyInt (sint s)] =
     (if supported (new_settings M (Settings (encoder c)) s)
      then (Inr PyNone,
            c\<lparr>encoder := (encoder c)\<lparr>Settings := new_settings M (Settings (encoder c)) s\<rparr>\<rparr>)
      else (Inl (BadEncoding s), c))"
  by (simp add: Export_set_encoding_submits encoder_set_encoding_def)

lemma touched_some:
  "s AND (R OR D OR E) \<noteq> 0 \<longleftrightarrow> s AND R \<noteq> 0 \<or> s AND D \<noteq> 0 \<or> s AND E \<noteq> 0"
  for s :: "32 word"
  by (auto simp: bit_eq_iff bit_simps)

lemma new_settings_touched:
  assumes "s AND (ROW_RETURN_MASK M OR DATETIME_RETURN_MASK M OR DECIMAL_RETURN_MASK M) \<noteq> 0"
  shows "new_settings M cur s \<in> (\<lambda>K. (cur AND NOT K) OR s) ` set (categories M)"
  using assms unfolding touched_some
  by (auto simp: new_settings_cases categories_def)

lemma or_request_keeps_request: "((cur AND NOT K) OR s) AND s = s"
  for cur :: "32 word"
  by (auto simp: bit_eq_iff bit_simps)

lemma outside_bits:
  "K = R \<or> K = D \<or> K = E \<Longrightarrow>
   ((cur AND NOT K) OR s) AND NOT (R OR D OR E) = (cur OR s) AND NOT (R OR D OR E)"
  for cur :: "32 word"
  by (auto simp: bit_eq_iff bit_simps)

lemma inside_category: "m AND NOT K = 0 \<Longrightarrow> m AND K = m"
  for m :: "32 word"
  by (auto simp: bit_eq_iff bit_simps)

lemma outside_category: "m AND NOT K = 0 \<Longrightarrow> K AND J = 0 \<Longrightarrow> m AND J = 0"
  for m :: "32 word"
  by (auto simp: bit_eq_iff bit_simps)

text \<open>
  A request whose bits all lie in one category: that category is cleared in the stored
  settings and the request is put in its place.
\<close>

lemma new_settings_single:
  assumes "disjoint_categories M" and "K \<in> set (categories M)"
    and "m \<noteq> 0" and "m AND NOT K = 0"
  shows "new_settings M cur m = (cur AND NOT K) OR m"
proof -
  let ?R = "ROW_RETURN_MASK M" and ?D = "DATETIME_RETURN_MASK M" and ?E = "DECIMAL_RETURN_MASK M"
  from assms(1) have d: "?R AND ?D = 0" "?R AND ?E = 0" "?D AND ?E = 0"
    "?D AND ?R = 0" "?E AND ?R = 0" "?E AND ?D = 0"
    by (simp_all add: disjoint_categories_def and.commute)
  from assms(2) consider "K = ?R" | "K = ?D" | "K = ?E"
    by (auto simp: categories_def)
  then show ?thesis
  proof cases
    case 1
    with assms(3,4) d have "m AND ?R = m" "m AND ?D = 0" "m AND ?E = 0"
      using inside_category outside_category by blast+
    with assms(3) 1 show ?thesis by (simp add: new_settings_cases)
  next
    case 2
    with assms(3,4) d have "m AND ?D = m" "m AND ?E = 0"
      using inside_category outside_category by blast+
    with assms(3) 2 show ?thesis by (simp add: new_settings_cases)
  next
    case 3
    with assms(3,4) d have "m AND ?E = m"
      using inside_category by blast
    with assms(3) 3 show ?thesis by (simp add: new_settings_cases)
  qed
qed

lemma distinct_categories_disjoint:
  assumes "disjoint_categories M" and "K1 \<in> set (categories M)" and "K2 \<in> set (categories M)"
    and "K1 \<noteq> K2"
  shows "K1 AND K2 = 0"
  using assms by (auto simp: disjoint_categories_def categories_def and.commute)

lemma two_overwrites:
  fixes d :: "32 word"
  assumes "K1 AND K2 = 0" and "m1 AND NOT K1 = 0" and "m2 AND NOT K2 = 0"
  shows "((((d AND NOT K1) OR m1) AND NOT K2) OR m2) = (d AND NOT K1 AND NOT K2) OR m1 OR m2"
    and "((((d AND NOT K2) OR m2) AND NOT K1) OR m1) = (d AND NOT K1 AND NOT K2) OR m1 OR m2"
    and "((d AND NOT K1 AND NOT K2) OR m1 OR m2) AND K1 = m1"
    and "((d AND NOT K1 AND NOT K2) OR m1 OR m2) AND K2 = m2"
  using assms by (auto simp: bit_eq_iff bit_simps)

lemma third_untouched:
  fixes d :: "32 word"
  assumes "K1 AND K3 = 0" and "K2 AND K3 = 0" and "m1 AND NOT K1 = 0" and "m2 AND NOT K2 = 0"
  shows "((d AND NOT K1 AND NOT K2) OR m1 OR m2) AND K3 = d AND K3"
  using assms by (auto simp: bit_eq_iff bit_simps)

subsection \<open>Merging a request into the stored settings\<close>

text \<open>
  Claim C1 (a defect of the code). The claim: a request with bits in two categories
  replaces both categories in the stored settings and leaves the third as it was.
  The code assigns \<open>new_settings\<close> afresh from the stored settings in each of its three
  tests, so only the last category the request touches is cleared; in an earlier one
  the old bits stay and are OR-ed with the requested ones. With byte-wide categories,
  stored settings 0x010104 and the request 0x0201 (row 0x01, datetime 0x02), the value
  handed to the encoder is 0x010205: the row category is 0x05, not 0x01. An encoder
  that takes every combination stores that value; one that wants a single bit per
  category refuses it, and the call raises although 0x010201 would have been accepted.
\<close>

theorem set_encoding_two_categories_keep_old_bits:
  "new_settings byte_masks 0x010104 0x0201 = 0x010205
   \<and> Export_set_encoding byte_masks (encoder_set_encoding any_combination) example_conn
        [PyInt 0x0201]
      = (Inr PyNone, example_conn\<lparr>encoder := (encoder example_conn)\<lparr>Settings := 0x010205\<rparr>\<rparr>)
   \<and> one_bit_each 0x010201
   \<and> Export_set_encoding byte_masks (encoder_set_encoding one_bit_each) example_conn
        [PyInt 0x0201]
      = (Inl (BadEncoding 0x0201), example_conn)"
  by (simp add: new_settings_cases byte_masks_def example_conn_def Connection_new_def
      example_constants_def Export_set_encoding_def encoder_set_encoding_def any_combination_def
      one_bit_each_def single_bit_def)

text \<open>
  Claim C2. For two masks \<open>m1\<close> and \<open>m2\<close>, each non-zero and inside one category, the
  two categories different: merging \<open>m1\<close> and then \<open>m2\<close> into settings \<open>d\<close> gives \<open>d\<close>
  with the category of \<open>m1\<close> holding \<open>m1\<close>, the category of \<open>m2\<close> holding \<open>m2\<close> and any
  other category as in \<open>d\<close>, and merging in the other order gives the same value. On
  the method itself: when the encoder accepts and stores the values it is handed, the
  two calls succeed and leave that value as the stored settings, in either order.
\<close>

theorem set_encoding_single_categories_commute:
  assumes "disjoint_categories M"
    and "K1 \<in> set (categories M)" and "K2 \<in> set (categories M)" and "K1 \<noteq> K2"
    and "m1 \<noteq> 0" and "m1 AND NOT K1 = 0" and "m2 \<noteq> 0" and "m2 AND NOT K2 = 0"
    and "\<And>e. set_enc e ((Settings (encoder c) AND NOT K1) OR m1)
            = (0, e\<lparr>Settings := (Settings (encoder c) AND NOT K1) OR m1\<rparr>)"
    and "\<And>e. set_enc e ((Settings (encoder c) AND NOT K2) OR m2)
            = (0, e\<lparr>Settings := (Settings (encoder c) AND NOT K2) OR m2\<rparr>)"
    and "\<And>e. set_enc e ((Settings (encoder c) AND NOT K1 AND NOT K2) OR m1 OR m2)
            = (0, e\<lparr>Settings := (Settings (encoder c) AND NOT K1 AND NOT K2) OR m1 OR m2\<rparr>)"
  shows "new_settings M (new_settings M d m1) m2 = (d AND NOT K1 AND NOT K2) OR m1 OR m2
       \<and> new_settings M (new_settings M d m2) m1 = (d AND NOT K1 AND NOT K2) OR m1 OR m2
       \<and> ((d AND NOT K1 AND NOT K2) OR m1 OR m2) AND K1 = m1
       \<and> ((d AND NOT K1 AND NOT K2) OR m1 OR m2) AND K2 = m2
       \<and> (\<forall>K3 \<in> set (categories M). K3 \<noteq> K1 \<longrightarrow> K3 \<noteq> K2 \<longrightarrow>
            ((d AND NOT K1 AND NOT K2) OR m1 OR m2) AND K3 = d AND K3)
       \<and> Export_set_encoding M set_enc
            (snd (Export_set_encoding M set_enc c [PyInt (sint m1)])) [PyInt (sint m2)]
          = (Inr PyNone,
             c\<lparr>encoder := (encoder c)\<lparr>Settings :=
                 (Settings (encoder c) AND NOT K1 AND NOT K2) OR m1 OR m2\<rparr>\<rparr>)
       \<and> Export_set_encoding M set_enc
            (snd (Export_set_encoding M set_enc c [PyInt (sint m2)])) [PyInt (sint m1)]
          = (Inr PyNone,
             c\<lparr>encoder := (encoder c)\<lparr>Settings :=
                 (Settings (encoder c) AND NOT K1 AND NOT K2) OR m1 OR m2\<rparr>\<rparr>)"
proof -
  have k: "K1 AND K2 = 0"
    using distinct_categories_disjoint [OF assms(1-4)] .
  have s1: "new_settings M cur m1 = (cur AND NOT K1) OR m1" for cur
    using new_settings_single [OF assms(1,2,5,6)] .
  have s2: "new_settings M cur m2 = (cur AND NOT K2) OR m2" for cur
    using new_settings_single [OF assms(1,3,7,8)] .
  have t: "((d AND NOT K1 AND NOT K2) OR m1 OR m2) AND K3 = d AND K3"
    if "K3 \<in> set (categories M)" "K3 \<noteq> K1" "K3 \<noteq> K2" for K3
  proof -
    have "K1 AND K3 = 0" "K2 AND K3 = 0"
      using distinct_categories_disjoint [OF assms(1,2) that(1)]
        distinct_categories_disjoint [OF assms(1,3) that(1)] that(2,3) by auto
    then show ?thesis using third_untouched assms(6,8) by blast
  qed
  note o = two_overwrites [OF k assms(6,8)]
  have merge: "new_settings M (new_settings M d m1) m2 = (d AND NOT K1 AND NOT K2) OR m1 OR m2
       \<and> new_settings M (new_settings M d m2) m1 = (d AND NOT K1 AND NOT K2) OR m1 OR m2
       \<and> ((d AND NOT K1 AND NOT K2) OR m1 OR m2) AND K1 = m1
       \<and> ((d AND NOT K1 AND NOT K2) OR m1 OR m2) AND K2 = m2
       \<and> (\<forall>K3 \<in> set (categories M). K3 \<noteq> K1 \<longrightarrow> K3 \<noteq> K2 \<longrightarrow>
            ((d AND NOT K1 AND NOT K2) OR m1 OR m2) AND K3 = d AND K3)"
    using o [of d] t by (simp only: s1 s2 simp_thms) blast
  have first: "Export_set_encoding M set_enc
            (snd (Export_set_encoding M set_enc c [PyInt (sint m1)])) [PyInt (sint m2)]
          = (Inr PyNone,
             c\<lparr>encoder := (encoder c)\<lparr>Settings :=
                 (Settings (encoder c) AND NOT K1 AND NOT K2) OR m1 OR m2\<rparr>\<rparr>)"
    by (simp add: Export_set_encoding_submits s1 s2 assms(9) o(1) assms(11))
  have second: "Export_set_encoding M set_enc
            (snd (Export_set_encoding M set_enc c [PyInt (sint m2)])) [PyInt (sint m1)]
          = (Inr PyNone,
             c\<lparr>encoder := (encoder c)\<lparr>Settings :=
                 (Settings (encoder c) AND NOT K1 AND NOT K2) OR m1 OR m2\<rparr>\<rparr>)"
    by (simp add: Export_set_encoding_submits s1 s2 assms(10) o(2) assms(11))
  from merge first second show ?thesis by blast
qed

text \<open>
  The theorem at the byte-wide categories: the row category set to 0x02 and the decimal
  category to 0x02, on stored settings 0x010104, in both orders.
\<close>

theorem set_encoding_single_categories_commute_witness:
  "disjoint_categories byte_masks
   \<and> one_bit_each 0x010102 \<and> one_bit_each 0x020104 \<and> one_bit_each 0x020102
   \<and> new_settings byte_masks (new_settings byte_masks 0x010104 0x02) 0x020000 = 0x020102
   \<and> new_settings byte_masks (new_settings byte_masks 0x010104 0x020000) 0x02 = 0x020102
   \<and> Export_set_encoding byte_masks (encoder_set_encoding one_bit_each)
        (snd (Export_set_encoding byte_masks (encoder_set_encoding one_bit_each) example_conn
           [PyInt 0x02]))
        [PyInt 0x020000]
      = (Inr PyNone, example_conn\<lparr>encoder := (encoder example_conn)\<lparr>Settings := 0x020102\<rparr>\<rparr>)
   \<and> Export_set_encoding byte_masks (encoder_set_encoding one_bit_each)
        (snd (Export_set_encoding byte_masks (encoder_set_encoding one_bit_each) example_conn
           [PyInt 0x020000]))
        [PyInt 0x02]
      = (Inr PyNone, example_conn\<lparr>encoder := (encoder example_conn)\<lparr>Settings := 0x020102\<rparr>\<rparr>)"
  using set_encoding_single_categories_commute [of byte_masks "0xFF" "0xFF0000" "0x02" "0x020000"
      "encoder_set_encoding one_bit_each" example_conn "0x010104"]
  by (simp add: disjoint_categories_def categories_def byte_masks_def one_bit_each_def
      single_bit_def example_conn_def Connection_new_def example_constants_def
      encoder_set_encoding_def)



text \<open>
  Claim C4. When the value merged from a request fails the encoder's validity check,
  the call fails with the \<open>ValueError\<close> of \<open>Export_set_encoding\<close>, which carries the
  request as the caller passed it (the source formats \<open>settings\<close>), and the connection,
  its stored settings included, is as before the call. The first part holds for any
  encoder function: a non-zero status raises that error and the method writes nothing
  of its own to the encoder.
\<close>

theorem set_encoding_rejected_keeps_settings:
  "(fst (set_enc (encoder c) (new_settings M (Settings (encoder c)) s)) \<noteq> 0 \<longrightarrow>
      Export_set_encoding M set_enc c [PyInt (sint s)]
      = (Inl (BadEncoding s),
         c\<lparr>encoder := snd (set_enc (encoder c) (new_settings M (Settings (encoder c)) s))\<rparr>))
   \<and> (\<not> supported (new_settings M (Settings (encoder c)) s) \<longrightarrow>
      Export_set_encoding M (encoder_set_encoding supported) c [PyInt (sint s)]
      = (Inl (BadEncoding s), c))"
  by (simp add: Export_set_encoding_submits encoder_set_encoding_def split: prod.split)

text \<open>
  The theorem at the request 0x0300 (two bits in the datetime category) on stored
  settings 0x010104.
\<close>

theorem set_encoding_rejected_keeps_settings_witness:
  "fst (encoder_set_encoding one_bit_each (encoder example_conn)
          (new_settings byte_masks (Settings (encoder example_conn)) 0x0300)) = - 1
   \<and> \<not> one_bit_each (new_settings byte_masks (Settings (encoder example_conn)) 0x0300)
   \<and> Export_set_encoding byte_masks (encoder_set_encoding one_bit_each) example_conn
        [PyInt 0x0300]
      = (Inl (BadEncoding 0x0300), example_conn)"
  using set_encoding_rejected_keeps_settings [of "encoder_set_encoding one_bit_each" example_conn
      byte_masks "0x0300" one_bit_each]
  by (simp add: new_settings_cases byte_masks_def example_conn_def Connection_new_def
      example_constants_def one_bit_each_def single_bit_def encoder_set_encoding_def)

text \<open>
  Claim C9. A request with a bit in some category reaches the encoder whole: the value
  handed to the encoder contains every bit of the request, and outside the three
  categories its bits are those of the stored settings together with those of the
  request.
\<close>

theorem set_encoding_propagates_request_bits:
  assumes "s AND (ROW_RETURN_MASK M OR DATETIME_RETURN_MASK M OR DECIMAL_RETURN_MASK M) \<noteq> 0"
  shows "Export_set_encoding M set_enc c [PyInt (sint s)] =
           (case set_enc (encoder c) (new_settings M (Settings (encoder c)) s) of
              (rc, e) \<Rightarrow>
                (if rc \<noteq> 0 then Inl (BadEncoding s) else Inr PyNone, c\<lparr>encoder := e\<rparr>))
         \<and> new_settings M (Settings (encoder c)) s AND s = s
         \<and> new_settings M (Settings (encoder c)) s
              AND NOT (ROW_RETURN_MASK M OR DATETIME_RETURN_MASK M OR DECIMAL_RETURN_MASK M)
            = (Settings (encoder c) OR s)
              AND NOT (ROW_RETURN_MASK M OR DATETIME_RETURN_MASK M OR DECIMAL_RETURN_MASK M)"
proof -
  from new_settings_touched [OF assms, of "Settings (encoder c)"]
  obtain K where K: "K = ROW_RETURN_MASK M \<or> K = DATETIME_RETURN_MASK M \<or> K = DECIMAL_RETURN_MASK M"
    and n: "new_settings M (Settings (encoder c)) s = (Settings (encoder c) AND NOT K) OR s"
    by (auto simp: categories_def)
  show ?thesis
    unfolding n using outside_bits [OF K] or_request_keeps_request
    by (simp only: Export_set_encoding_submits n simp_thms)
qed

text \<open>
  The theorem at the request 0x01000002 (row 0x02 and bit 24, which is in no category)
  on stored settings 0x010104: bit 24 is in the value the encoder stores.
\<close>

theorem set_encoding_propagates_request_bits_witness:
  "0x01000002 AND (ROW_RETURN_MASK byte_masks OR DATETIME_RETURN_MASK byte_masks
      OR DECIMAL_RETURN_MASK byte_masks) = (2 :: 32 word)
   \<and> new_settings byte_masks 0x010104 0x01000002 = 0x01010102
   \<and> Export_set_encoding byte_masks (encoder_set_encoding one_bit_each) example_conn
        [PyInt 0x01000002]
      = (Inr PyNone, example_conn\<lparr>encoder := (encoder example_conn)\<lparr>Settings := 0x01010102\<rparr>\<rparr>)"
  using set_encoding_propagates_request_bits [of "0x01000002" byte_masks
      "encoder_set_encoding one_bit_each" example_conn]
  by (simp add: new_settings_cases byte_masks_def example_conn_def Connection_new_def
      example_constants_def encoder_set_encoding_def one_bit_each_def single_bit_def)

subsection \<open>Construction\<close>

text \<open>
  Claim C5. For every host, user name and password (C strings, so without an embedded
  NUL, which the \<open>s\<close> unit refuses), construction succeeds and leaves the attribute
  store holding, after the export operator and the three credentials, the defaults:
  minimum sessions 2, maximum sessions 5, maximum decimal digits 38, the charset
  constant, buffer mode "YES" with block size 64330, buffer header size 2, buffer
  length size 2, the maximum row size as buffer cap, buffer trailer size 0, spool mode
  "NoSpool", tenacity hours 1 and tenacity sleep 1, in this order and nothing else.
\<close>

theorem Export_init_defaults:
  assumes "CHR 0x00 \<notin> set h" and "CHR 0x00 \<notin> set u" and "CHR 0x00 \<notin> set p"
  shows "fst (Export_init K self [PyStr h, PyStr u, PyStr p]) = 0
       \<and> map_option attributes (conn (snd (Export_init K self [PyStr h, PyStr u, PyStr p]))) =
           Some [(TD_SYSTEM_OPERATOR, IntVal (TD_EXPORT K)),
                 (TD_TDP_ID, StrVal h),
                 (TD_USER_NAME, StrVal u),
                 (TD_USER_PASSWORD, StrVal p),
                 (TD_MIN_SESSIONS, IntVal 2),
                 (TD_MAX_SESSIONS, IntVal 5),
                 (TD_MAX_DECIMAL_DIGITS, IntVal 38),
                 (TD_CHARSET, StrVal (TERADATA_CHARSET K)),
                 (TD_BUFFER_MODE, StrVal ''YES''),
                 (TD_BLOCK_SIZE, IntVal 64330),
                 (TD_BUFFER_HEADER_SIZE, IntVal 2),
                 (TD_BUFFER_LENGTH_SIZE, IntVal 2),
                 (TD_BUFFER_MAX_SIZE, IntVal (TD_ROW_MAX_SIZE K)),
                 (TD_BUFFER_TRAILER_SIZE, IntVal 0),
                 (TD_SPOOLMODE, StrVal ''NoSpool''),
                 (TD_TENACITY_HOURS, IntVal 1),
                 (TD_TENACITY_SLEEP, IntVal 1)]"
  using assms by (simp add: Export_init_def AddAttribute_def Connection_new_def Let_def)

text \<open>The theorem at host "tdprod", user "dbc", password "secret": four of the entries.\<close>

theorem Export_init_defaults_witness:
  "CHR 0x00 \<notin> set ''tdprod'' \<and> CHR 0x00 \<notin> set ''dbc'' \<and> CHR 0x00 \<notin> set ''secret''
   \<and> fst (Export_init example_constants Export_new
        [PyStr ''tdprod'', PyStr ''dbc'', PyStr ''secret'']) = 0
   \<and> map_option
        (\<lambda>c. map (map_of (attributes c))
           [TD_MIN_SESSIONS, TD_MAX_SESSIONS, TD_SPOOLMODE, TD_TDP_ID])
        (conn (snd (Export_init example_constants Export_new
           [PyStr ''tdprod'', PyStr ''dbc'', PyStr ''secret''])))
      = Some [Some (IntVal 2), Some (IntVal 5), Some (StrVal ''NoSpool''),
              Some (StrVal ''tdprod'')]"
  using Export_init_defaults [of "''tdprod''" "''dbc''" "''secret''" example_constants Export_new]
  by (auto simp: option.map_sel split: option.splits)

subsection \<open>Lifecycle\<close>

lemma close_twice:
  "snd (Export_close Connection_Terminate (snd (Export_close Connection_Terminate c)))
   = snd (Export_close Connection_Terminate c)"
  by (simp add: Export_close_def Connection_Terminate_def)

lemma close_repeated:
  "((\<lambda>x. snd (Export_close Connection_Terminate x)) ^^ Suc n) c
   = snd (Export_close Connection_Terminate c)"
proof (induction n)
  case 0
  show ?case by simp
next
  case (Suc n)
  then show ?case using close_twice by simp
qed

text \<open>
  Claim C6. Close succeeds from every state and leaves the state Terminated; it
  releases the native handle when one is allocated and only then, so a session that
  was constructed and never initiated has, after any number of calls, released its
  handle once; a second call returns success and changes nothing, and so does every
  later one.
\<close>

theorem close_idempotent:
  "Export_close Connection_Terminate c =
     (Inr PyNone,
      c\<lparr>state := Terminated, handle := False,
        releases := (if handle c then releases c + 1 else releases c)\<rparr>)
   \<and> Export_close Connection_Terminate (snd (Export_close Connection_Terminate c)) =
     (Inr PyNone, snd (Export_close Connection_Terminate c))
   \<and> ((\<lambda>x. snd (Export_close Connection_Terminate x)) ^^ Suc n) c
     = snd (Export_close Connection_Terminate c)
   \<and> state (Connection_new K h u p) = Created
   \<and> releases (((\<lambda>x. snd (Export_close Connection_Terminate x)) ^^ Suc n)
        (Connection_new K h u p)) = 1"
proof -
  have a: "Export_close Connection_Terminate c =
     (Inr PyNone,
      c\<lparr>state := Terminated, handle := False,
        releases := (if handle c then releases c + 1 else releases c)\<rparr>)"
    by (simp add: Export_close_def Connection_Terminate_def)
  have b: "Export_close Connection_Terminate (snd (Export_close Connection_Terminate c)) =
     (Inr PyNone, snd (Export_close Connection_Terminate c))"
    by (simp add: Export_close_def Connection_Terminate_def)
  have d: "state (Connection_new K h u p) = Created"
    by (simp add: Connection_new_def)
  have e: "releases (((\<lambda>x. snd (Export_close Connection_Terminate x)) ^^ Suc n)
        (Connection_new K h u p)) = 1"
    unfolding close_repeated
    by (simp add: Export_close_def Connection_Terminate_def Connection_new_def)
  from a b close_repeated [of n c] d e show ?thesis by blast
qed

text \<open>
  The theorem at a session that was initiated: three calls of close from the Active
  state release once and end Terminated.
\<close>

theorem close_idempotent_witness:
  "state (example_conn\<lparr>state := Active\<rparr>) = Active
   \<and> state (((\<lambda>x. snd (Export_close Connection_Terminate x)) ^^ Suc 2)
        (example_conn\<lparr>state := Active\<rparr>)) = Terminated
   \<and> releases (((\<lambda>x. snd (Export_close Connection_Terminate x)) ^^ Suc 2)
        (example_conn\<lparr>state := Active\<rparr>)) = 1"
  using close_idempotent [of "example_conn\<lparr>state := Active\<rparr>" 2 example_constants
      "''h''" "''u''" "''p''"]
  by (simp add: example_conn_def Connection_new_def)

text \<open>
  Claim C7. While the state is not Active, Columns fails with a \<open>LifecycleError\<close> and
  changes nothing. When Initiate succeeds, the transport has reported the column
  descriptors of the opened stream, and Columns on the resulting session returns
  exactly that sequence, in that order.
\<close>

theorem columns_need_active:
  "(state c \<noteq> Active \<longrightarrow> Export_columns Connection_Columns c = (Inl LifecycleError, c))
   \<and> (Export_initiate (Connection_Initiate transport) c = (Inr PyNone, c') \<longrightarrow>
        (\<exists>cols. transport c = Some cols
           \<and> Export_columns Connection_Columns c' = (Inr (PyColumns cols), c')))"
  by (auto simp: Export_columns_def Connection_Columns_def Export_initiate_def
      Connection_Initiate_def split: if_splits option.splits)

text \<open>The theorem at a fresh session and a transport that reports two columns.\<close>

theorem columns_need_active_witness:
  "state example_conn = Created
   \<and> Export_columns Connection_Columns example_conn = (Inl LifecycleError, example_conn)
   \<and> Export_initiate (Connection_Initiate (\<lambda>c. Some example_columns)) example_conn
      = (Inr PyNone, example_conn\<lparr>state := Active, columns := example_columns\<rparr>)
   \<and> Export_columns Connection_Columns
        (example_conn\<lparr>state := Active, columns := example_columns\<rparr>)
      = (Inr (PyColumns example_columns),
         example_conn\<lparr>state := Active, columns := example_columns\<rparr>)"
  using columns_need_active [of example_conn "\<lambda>c. Some example_columns"
      "example_conn\<lparr>state := Active, columns := example_columns\<rparr>"]
  by (simp add: example_conn_def Connection_new_def Export_initiate_def Connection_Initiate_def)

subsection \<open>Null marker and delimiter\<close>

text \<open>
  Claim C8 (corrected). The claim: SetNull and SetDelimiter fail with an encoding
  error on a value of the wrong kind, and are rejected once the session is Active.
  The methods hand the value to the encoder's setter and to nothing else: they fail
  exactly when the setter returns \<open>NULL\<close>, with the setter's exception, and otherwise
  return \<open>None\<close> with the encoder as the setter left it. The session state is not
  consulted: a call in one state has the result and the effect of the same call in
  any other state, Active included.
\<close>

theorem overrides_do_not_consult_state:
  "(set_null (encoder c) v = (Inl exc, e) \<longrightarrow>
      Export_set_null set_null c [v] = (Inl exc, c\<lparr>encoder := e\<rparr>))
   \<and> (set_null (encoder c) v = (Inr r, e) \<longrightarrow>
      Export_set_null set_null c [v] = (Inr PyNone, c\<lparr>encoder := e\<rparr>))
   \<and> (set_delim (encoder c) v = (Inl exc, e) \<longrightarrow>
      Export_set_delimiter set_delim c [v] = (Inl exc, c\<lparr>encoder := e\<rparr>))
   \<and> (set_delim (encoder c) v = (Inr r, e) \<longrightarrow>
      Export_set_delimiter set_delim c [v] = (Inr PyNone, c\<lparr>encoder := e\<rparr>))
   \<and> Export_set_null set_null (c\<lparr>state := st\<rparr>) [v] =
       (fst (Export_set_null set_null c [v]),
        (snd (Export_set_null set_null c [v]))\<lparr>state := st\<rparr>)
   \<and> Export_set_delimiter set_delim (c\<lparr>state := st\<rparr>) [v] =
       (fst (Export_set_delimiter set_delim c [v]),
        (snd (Export_set_delimiter set_delim c [v]))\<lparr>state := st\<rparr>)"
  by (simp add: Export_set_null_def Export_set_delimiter_def split: prod.split sum.split)

text \<open>
  The theorem with an encoder that takes strings and \<open>None\<close>: an integer is refused
  with an \<open>EncodingError\<close>, a string is stored.
\<close>

theorem overrides_do_not_consult_state_witness:
  "encoder_set_null text_or_none (encoder example_conn) (PyInt 0)
     = (Inl EncodingError, encoder example_conn)
   \<and> Export_set_null (encoder_set_null text_or_none) example_conn [PyInt 0]
     = (Inl EncodingError, example_conn)
   \<and> encoder_set_delimiter text_or_none (encoder example_conn) (PyInt 0)
     = (Inl EncodingError, encoder example_conn)
   \<and> Export_set_delimiter (encoder_set_delimiter text_or_none) example_conn [PyInt 0]
     = (Inl EncodingError, example_conn)
   \<and> encoder_set_null text_or_none (encoder example_conn) (PyStr ''NULL'')
     = (Inr PyNone, (encoder example_conn)\<lparr>null_marker := Some (PyStr ''NULL'')\<rparr>)
   \<and> Export_set_null (encoder_set_null text_or_none) example_conn [PyStr ''NULL'']
     = (Inr PyNone,
        example_conn\<lparr>encoder := (encoder example_conn)\<lparr>null_marker := Some (PyStr ''NULL'')\<rparr>\<rparr>)
   \<and> encoder_set_delimiter text_or_none (encoder example_conn) (PyStr ''|'')
     = (Inr PyNone, (encoder example_conn)\<lparr>delimiter := Some (PyStr ''|'')\<rparr>)
   \<and> Export_set_delimiter (encoder_set_delimiter text_or_none) example_conn [PyStr ''|'']
     = (Inr PyNone,
        example_conn\<lparr>encoder := (encoder example_conn)\<lparr>delimiter := Some (PyStr ''|'')\<rparr>\<rparr>)"
  using overrides_do_not_consult_state [of "encoder_set_null text_or_none" example_conn
      "PyInt 0" EncodingError "encoder example_conn" PyNone
      "encoder_set_delimiter text_or_none" Active]
    overrides_do_not_consult_state [of "encoder_set_null text_or_none" example_conn
      "PyStr ''NULL''" EncodingError "(encoder example_conn)\<lparr>null_marker := Some (PyStr ''NULL'')\<rparr>"
      PyNone "encoder_set_delimiter text_or_none" Active]
    overrides_do_not_consult_state [of "encoder_set_null text_or_none" example_conn
      "PyStr ''|''" EncodingError "(encoder example_conn)\<lparr>delimiter := Some (PyStr ''|'')\<rparr>"
      PyNone "encoder_set_delimiter text_or_none" Active]
  by (simp add: encoder_set_null_def encoder_set_delimiter_def)

text \<open>
  The claim fails on a session that has been initiated: in the Active state, SetNull
  with "NULL" and SetDelimiter with "|" return \<open>None\<close> and replace the null marker and
  the delimiter.
\<close>

theorem overrides_after_active_counterexample:
  "state (snd (Export_initiate (Connection_Initiate (\<lambda>c. Some example_columns)) example_conn))
     = Active
   \<and> null_marker (encoder example_conn) = None
   \<and> delimiter (encoder example_conn) = None
   \<and> Export_set_null (encoder_set_null text_or_none)
        (snd (Export_initiate (Connection_Initiate (\<lambda>c. Some example_columns)) example_conn))
        [PyStr ''NULL'']
      = (Inr PyNone,
         example_conn\<lparr>state := Active, columns := example_columns,
           encoder := (encoder example_conn)\<lparr>null_marker := Some (PyStr ''NULL'')\<rparr>\<rparr>)
   \<and> Export_set_delimiter (encoder_set_delimiter text_or_none)
        (snd (Export_initiate (Connection_Initiate (\<lambda>c. Some example_columns)) example_conn))
        [PyStr ''|'']
      = (Inr PyNone,
         example_conn\<lparr>state := Active, columns := example_columns,
           encoder := (encoder example_conn)\<lparr>delimiter := Some (PyStr ''|'')\<rparr>\<rparr>)"
  by (simp add: example_conn_def Connection_new_def Export_initiate_def Connection_Initiate_def
      Export_set_null_def Export_set_delimiter_def encoder_set_null_def encoder_set_delimiter_def)

subsection \<open>Arguments that do not parse\<close>

text \<open>
  Claim C10. When the arguments of add_attribute, set_query, set_encoding, set_null or
  set_delimiter do not parse against the method's format, the method returns the
  error at once: the connection is returned as it was, and the result does not depend
  on the connection, on its encoder or on the collaborator the method would have
  called.
\<close>

theorem parse_failure_returns_immediately:
  "(PyArg_ParseTuple args1 ''iO'' = None \<longrightarrow>
      Export_add_attribute add_attr c args1 = (Inl ArgumentError, c))
   \<and> (PyArg_ParseTuple args2 ''s'' = None \<longrightarrow>
      Export_set_query set_query c args2 = (Inl ArgumentError, c))
   \<and> (PyArg_ParseTuple args3 ''i'' = None \<longrightarrow>
      Export_set_encoding M set_enc c args3 = (Inl ArgumentError, c))
   \<and> (PyArg_ParseTuple args4 ''O'' = None \<longrightarrow>
      Export_set_null set_null c args4 = (Inl ArgumentError, c))
   \<and> (PyArg_ParseTuple args5 ''O'' = None \<longrightarrow>
      Export_set_delimiter set_delim c args5 = (Inl ArgumentError, c))"
  by (simp add: Export_add_attribute_def Export_set_query_def Export_set_encoding_def
      Export_set_null_def Export_set_delimiter_def)

text \<open>
  The theorem at five argument tuples that do not parse: too few arguments, an integer
  for a string, an integer beyond the range of \<open>int\<close>, no argument, two arguments.
\<close>

theorem parse_failure_returns_immediately_witness:
  "PyArg_ParseTuple [PyInt 7] ''iO'' = None
   \<and> Export_add_attribute (\<lambda>k v c. (Inr PyNone, c\<lparr>state := Configured\<rparr>)) example_conn
        [PyInt 7]
      = (Inl ArgumentError, example_conn)
   \<and> PyArg_ParseTuple [PyInt 7] ''s'' = None
   \<and> Export_set_query Connection_SetQuery example_conn [PyInt 7]
      = (Inl ArgumentError, example_conn)
   \<and> PyArg_ParseTuple [PyInt 4294967296] ''i'' = None
   \<and> Export_set_encoding byte_masks (encoder_set_encoding any_combination) example_conn
        [PyInt 4294967296]
      = (Inl ArgumentError, example_conn)
   \<and> PyArg_ParseTuple [] ''O'' = None
   \<and> Export_set_null (encoder_set_null text_or_none) example_conn []
      = (Inl ArgumentError, example_conn)
   \<and> PyArg_ParseTuple [PyNone, PyNone] ''O'' = None
   \<and> Export_set_delimiter (encoder_set_delimiter text_or_none) example_conn [PyNone, PyNone]
      = (Inl ArgumentError, example_conn)"
  using parse_failure_returns_immediately [of "[PyInt 7]"
      "\<lambda>k v c. (Inr PyNone, c\<lparr>state := Configured\<rparr>)"
      example_conn "[PyInt 7]" Connection_SetQuery "[PyInt 4294967296]" byte_masks
      "encoder_set_encoding any_combination" "[]" "encoder_set_null text_or_none"
      "[PyNone, PyNone]" "encoder_set_delimiter text_or_none"]
  by simp

end
